theory Spec2Isabelle
  imports Main
begin

section \<open>The label image and the errors of \<open>PennFudanDataset.__getitem__\<close>\<close>

text \<open>
  The notebook's only self-contained logic is the part of \<open>__getitem__\<close> that turns the
  colour-indexed mask image into per-instance binary masks, bounding boxes and areas (the
  specification calls it \<open>decompose\<close>). The embedding follows that code line by line. File
  access (\<open>Image.open\<close>) and the optional \<open>transforms\<close> callback are outside it: the function
  below takes the array that \<open>np.array(mask)\<close> returns and builds the \<open>target\<close> dictionary,
  as the code does when \<open>transforms\<close> is \<open>None\<close>.

  \<open>np.array\<close> of a PIL image is a two-dimensional array with a shape \<open>(H, W)\<close> and unsigned
  pixel values; it is a record of the shape and the rows.
\<close>

record ndarray =
  nrows :: nat
  ncols :: nat
  cells :: "nat list list"

definition wf_array :: "ndarray \<Rightarrow> bool" where
  "wf_array a \<longleftrightarrow>
     length (cells a) = nrows a \<and> list_all (\<lambda>row. length row = ncols a) (cells a)"

text \<open>
  The Python exceptions that the code can raise. The source defines no exception class of
  its own and has no \<open>raise\<close> statement: \<open>ValueError\<close> comes from \<open>np.min\<close> and
  \<open>np.max\<close>, \<open>IndexError\<close> from indexing a tensor.
\<close>

datatype error = IndexError | ValueError

section \<open>numpy operations\<close>

text \<open>\<open>np.unique\<close> flattens the array and returns its distinct values in ascending order.\<close>

definition unique :: "ndarray \<Rightarrow> nat list" where
  "unique a = sort (remdups (concat (cells a)))"

text \<open>\<open>obj_ids = np.unique(mask)\<close> followed by \<open>obj_ids = obj_ids[1:]\<close>.\<close>

definition obj_ids :: "ndarray \<Rightarrow> nat list" where
  "obj_ids a = drop 1 (unique a)"

text \<open>
  \<open>mask == obj_ids[:, None, None]\<close>: broadcasting compares every pixel with every id and
  gives a boolean array of shape \<open>(N, H, W)\<close>.
\<close>

definition eq_broadcast :: "ndarray \<Rightarrow> nat list \<Rightarrow> bool list list list" where
  "eq_broadcast a ids = map (\<lambda>v. map (map (\<lambda>p. p = v)) (cells a)) ids"

text \<open>
  \<open>np.where(m)\<close> returns the row indices and the column indices of the true entries, in
  row-major order.
\<close>

definition true_positions :: "bool list list \<Rightarrow> (nat \<times> nat) list" where
  "true_positions m =
     concat (map (\<lambda>r. map (\<lambda>c. (r, c)) (filter (\<lambda>c. m ! r ! c) [0..<length (m ! r)]))
               [0..<length m])"

definition np_where :: "bool list list \<Rightarrow> int list \<times> int list" where
  "np_where m = (map (\<lambda>p. int (fst p)) (true_positions m),
                 map (\<lambda>p. int (snd p)) (true_positions m))"

text \<open>\<open>np.min\<close> and \<open>np.max\<close> raise \<open>ValueError\<close> on an array of size zero.\<close>

fun np_min :: "int list \<Rightarrow> error + int" where
  "np_min [] = Inl ValueError"
| "np_min (x # xs) = Inr (fold min xs x)"

fun np_max :: "int list \<Rightarrow> error + int" where
  "np_max [] = Inl ValueError"
| "np_max (x # xs) = Inr (fold max xs x)"

section \<open>float32 tensors\<close>

text \<open>
  \<open>torch.as_tensor(boxes, dtype=torch.float32)\<close> rounds every coordinate to the nearest
  float32 (24 significant bits, ties to even), and \<open>area\<close> is computed in float32
  arithmetic. Every float32 value of this function is an integer (a pixel coordinate, a
  difference or a product of such), and rounding an integer to float32 gives an integer
  again, so a float32 value is modelled by the integer it denotes and the rounding by a
  function on integers. Magnitudes stay far below the float32 overflow threshold
  \<open>2 ^ 128\<close> (coordinates of an array are below \<open>2 ^ 63\<close>), so infinities do not occur.
\<close>

function f32_exponent :: "nat \<Rightarrow> nat" where
  "f32_exponent n = (if n < 2 ^ 24 then 0 else Suc (f32_exponent (n div 2)))"
  by pat_completeness auto
termination
  by (relation "measure (\<lambda>n. n)") auto

definition round_half_even :: "nat \<Rightarrow> nat \<Rightarrow> nat" where
  "round_half_even n k =
     (let q = n div 2 ^ k; r = n mod 2 ^ k
      in if 2 * r < 2 ^ k then q * 2 ^ k
         else if 2 ^ k < 2 * r then (q + 1) * 2 ^ k
         else if even q then q * 2 ^ k
         else (q + 1) * 2 ^ k)"

definition float32 :: "int \<Rightarrow> int" where
  "float32 x = sgn x * int (round_half_even (nat \<bar>x\<bar>) (f32_exponent (nat \<bar>x\<bar>)))"

type_synonym box = "int \<times> int \<times> int \<times> int"

definition as_tensor_float32 :: "box list \<Rightarrow> box list" where
  "as_tensor_float32 bs =
     map (\<lambda>(x0, y0, x1, y1). (float32 x0, float32 y0, float32 x1, float32 y1)) bs"

text \<open>\<open>torch.as_tensor(masks, dtype=torch.uint8)\<close>: \<open>True\<close> becomes 1 and \<open>False\<close> 0.\<close>

definition as_tensor_uint8 :: "bool list list list \<Rightarrow> nat list list list" where
  "as_tensor_uint8 ms = map (map (map (\<lambda>b. if b then 1 else 0))) ms"

text \<open>
  \<open>(boxes[:, 3] - boxes[:, 1]) * (boxes[:, 2] - boxes[:, 0])\<close> for one row: two float32
  subtractions and a float32 multiplication.
\<close>

definition box_area :: "box \<Rightarrow> int" where
  "box_area b = (case b of (x0, y0, x1, y1) \<Rightarrow> float32 (float32 (y1 - y0) * float32 (x1 - x0)))"

section \<open>The body of \<open>__getitem__\<close>\<close>

text \<open>The body of the loop: the extent of one binary mask.\<close>

definition bbox :: "bool list list \<Rightarrow> error + box" where
  "bbox m =
     (case np_where m of (pos0, pos1) \<Rightarrow>
        (case np_min pos1 of Inl e \<Rightarrow> Inl e | Inr xmin \<Rightarrow>
        (case np_max pos1 of Inl e \<Rightarrow> Inl e | Inr xmax \<Rightarrow>
        (case np_min pos0 of Inl e \<Rightarrow> Inl e | Inr ymin \<Rightarrow>
        (case np_max pos0 of Inl e \<Rightarrow> Inl e | Inr ymax \<Rightarrow>
           Inr (xmin, ymin, xmax, ymax))))))"

text \<open>
  \<open>for i in range(num_objs): ... boxes.append([xmin, ymin, xmax, ymax])\<close>: the first mask
  whose extent cannot be computed ends the loop with its exception.
\<close>

fun boxes_loop :: "bool list list list \<Rightarrow> error + box list" where
  "boxes_loop [] = Inr []"
| "boxes_loop (m # ms) =
     (case bbox m of Inl e \<Rightarrow> Inl e
      | Inr b \<Rightarrow> (case boxes_loop ms of Inl e \<Rightarrow> Inl e | Inr bs \<Rightarrow> Inr (b # bs)))"

record target =
  boxes :: "box list"
  labels :: "int list"
  masks :: "nat list list list"
  image_id :: "int list"
  area :: "int list"
  iscrowd :: "int list"

text \<open>
  Everything after the ids are known. \<open>torch.as_tensor\<close> of an empty Python list is a
  one-dimensional tensor of shape \<open>[0]\<close>, and \<open>boxes[:, 3]\<close> on it raises \<open>IndexError\<close>
  (too many indices); with at least one box the tensor has shape \<open>[N, 4]\<close>.
\<close>

definition target_of_ids :: "int \<Rightarrow> ndarray \<Rightarrow> nat list \<Rightarrow> error + target" where
  "target_of_ids idx a ids =
     (let ms = eq_broadcast a ids;
          num_objs = length ids
      in case boxes_loop ms of
           Inl e \<Rightarrow> Inl e
         | Inr bl \<Rightarrow>
             (let bs = as_tensor_float32 bl
              in if bs = [] then Inl IndexError
                 else Inr \<lparr>boxes = bs,
                          labels = replicate num_objs 1,
                          masks = as_tensor_uint8 ms,
                          image_id = [idx],
                          area = map box_area bs,
                          iscrowd = replicate num_objs 0\<rparr>))"

definition getitem :: "int \<Rightarrow> ndarray \<Rightarrow> error + target" where
  "getitem idx a = target_of_ids idx a (obj_ids a)"

section \<open>Notions used in the lemmas\<close>

text \<open>
  The positions of the array that hold the value \<open>v\<close>, and the extent of a set of
  positions: least column, least row, greatest column, greatest row. They are not part of
  the code: the lemmas below describe with them what the loop computes. The statements of
  the claims do not use them.
\<close>

definition label_positions :: "ndarray \<Rightarrow> nat \<Rightarrow> (nat \<times> nat) set" where
  "label_positions a v =
     {(r, c). r < length (cells a) \<and> c < length (cells a ! r) \<and> cells a ! r ! c = v}"

definition extent :: "(nat \<times> nat) set \<Rightarrow> box" where
  "extent P = (Min (int ` snd ` P), Min (int ` fst ` P), Max (int ` snd ` P), Max (int ` fst ` P))"

text \<open>
  The grid of the specification's first example and the result of the call on it, and two
  large images: a strip of one row and 16777218 columns whose only labelled pixel is the
  last one, and a square of 4098 rows and columns with label 1 in two opposite corners.
\<close>

definition example_grid :: ndarray where
  "example_grid = \<lparr>nrows = 3, ncols = 3, cells = [[0, 0, 1], [0, 1, 1], [2, 2, 0]]\<rparr>"

definition example_target :: target where
  "example_target =
     \<lparr>boxes = [(1, 0, 2, 1), (0, 2, 1, 2)],
      labels = [1, 1],
      masks = [[[0, 0, 1], [0, 1, 1], [0, 0, 0]], [[0, 0, 0], [0, 0, 0], [1, 1, 0]]],
      image_id = [0],
      area = [1, 0],
      iscrowd = [0, 0]\<rparr>"

definition strip_image :: ndarray where
  "strip_image = \<lparr>nrows = 1, ncols = 16777218, cells = [replicate 16777217 0 @ [1]]\<rparr>"

definition square_image :: ndarray where
  "square_image = \<lparr>nrows = 4098, ncols = 4098,
     cells = (1 # replicate 4097 0) # replicate 4096 (replicate 4098 0) @ [replicate 4097 0 @ [1]]\<rparr>"

section \<open>Rounding to float32\<close>

text \<open>Integers of magnitude up to \<open>2 ^ 24 = 16777216\<close> are float32 values.\<close>

lemma f32_exponent_small: "n < 16777216 \<Longrightarrow> f32_exponent n = 0"
  by (subst f32_exponent.simps) simp

lemma round_half_even_0: "round_half_even n 0 = n"
  by (simp add: round_half_even_def)

lemma float32_small:
  assumes "\<bar>x\<bar> < 16777216"
  shows "float32 x = x"
proof -
  from assms have "nat \<bar>x\<bar> < 16777216" by simp
  then have "f32_exponent (nat \<bar>x\<bar>) = 0" by (rule f32_exponent_small)
  then show ?thesis
    by (simp add: float32_def round_half_even_0 mult_sgn_abs)
qed

lemma f32_exponent_pow24: "f32_exponent 16777216 = Suc 0"
  by (subst f32_exponent.simps) (simp add: f32_exponent_small)

lemma round_pow24: "round_half_even 16777216 (Suc 0) = 16777216"
  by (simp add: round_half_even_def)

lemma float32_exact:
  assumes "\<bar>x\<bar> \<le> 16777216"
  shows "float32 x = x"
proof (cases "\<bar>x\<bar> < 16777216")
  case True
  then show ?thesis by (rule float32_small)
next
  case False
  with assms have ax: "\<bar>x\<bar> = 16777216" by simp
  then have "nat \<bar>x\<bar> = 16777216" by simp
  then have "float32 x = sgn x * 16777216"
    by (simp add: float32_def f32_exponent_pow24 round_pow24)
  also have "\<dots> = sgn x * \<bar>x\<bar>" using ax by simp
  finally show ?thesis by (simp add: mult_sgn_abs)
qed

lemma f32_exponent_one:
  "16777216 \<le> n \<Longrightarrow> n < 33554432 \<Longrightarrow> f32_exponent n = Suc 0"
  by (subst f32_exponent.simps) (simp add: f32_exponent_small)

lemma float32_16777217: "float32 16777217 = 16777216"
  by (simp add: float32_def f32_exponent_one round_half_even_def)

lemma float32_16785409: "float32 16785409 = 16785408"
  by (simp add: float32_def f32_exponent_one round_half_even_def)

section \<open>Distinct values, positions and extents\<close>

lemma np_min_eq: "np_min xs = (if xs = [] then Inl ValueError else Inr (Min (set xs)))"
proof (cases xs)
  case Nil
  then show ?thesis by simp
next
  case (Cons y ys)
  then show ?thesis using Min.set_eq_fold [of y ys] by simp
qed

lemma np_max_eq: "np_max xs = (if xs = [] then Inl ValueError else Inr (Max (set xs)))"
proof (cases xs)
  case Nil
  then show ?thesis by simp
next
  case (Cons y ys)
  then show ?thesis using Max.set_eq_fold [of y ys] by simp
qed

lemma set_unique: "set (unique a) = set (concat (cells a))"
  by (simp add: unique_def)

lemma sorted_unique: "sorted (unique a)"
  by (simp add: unique_def)

lemma distinct_unique: "distinct (unique a)"
  by (simp add: unique_def)

lemma strict_sorted_obj_ids: "sorted_wrt (<) (obj_ids a)"
proof -
  have "sorted_wrt (<) (unique a)"
    by (simp add: strict_sorted_iff sorted_unique distinct_unique)
  then show ?thesis
    unfolding obj_ids_def by (rule sorted_wrt_drop)
qed

lemma set_obj_ids_subset: "set (obj_ids a) \<subseteq> set (concat (cells a))"
  using set_drop_subset [of 1 "unique a"] by (simp add: obj_ids_def set_unique)

lemma set_true_positions:
  "set (true_positions m) = {(r, c). r < length m \<and> c < length (m ! r) \<and> m ! r ! c}"
  by (auto simp: true_positions_def)

lemma in_concat_conv_nth:
  "v \<in> set (concat xss) \<longleftrightarrow> (\<exists>r<length xss. \<exists>c<length (xss ! r). xss ! r ! c = v)"
proof
  assume "v \<in> set (concat xss)"
  then obtain xs where xs: "xs \<in> set xss" "v \<in> set xs" by auto
  from xs(1) obtain r where r: "r < length xss" "xss ! r = xs"
    by (auto simp: in_set_conv_nth)
  from xs(2) obtain c where c: "c < length xs" "xs ! c = v"
    by (auto simp: in_set_conv_nth)
  from r c show "\<exists>r<length xss. \<exists>c<length (xss ! r). xss ! r ! c = v" by auto
next
  assume "\<exists>r<length xss. \<exists>c<length (xss ! r). xss ! r ! c = v"
  then obtain r c where rc: "r < length xss" "c < length (xss ! r)" "xss ! r ! c = v"
    by blast
  then have "xss ! r \<in> set xss" "v \<in> set (xss ! r)" by auto
  then show "v \<in> set (concat xss)" by auto
qed

lemma set_true_positions_mask:
  "set (true_positions (map (map (\<lambda>p. p = v)) (cells a))) = label_positions a v"
  by (auto simp: set_true_positions label_positions_def)

lemma label_positions_empty_iff:
  "label_positions a v = {} \<longleftrightarrow> v \<notin> set (concat (cells a))"
  unfolding in_concat_conv_nth label_positions_def by auto

lemma finite_label_positions: "finite (label_positions a v)"
  using set_true_positions_mask [of v a, symmetric] by simp

lemma bbox_eq:
  "bbox m =
     (if true_positions m = [] then Inl ValueError
      else Inr (Min (int ` snd ` set (true_positions m)), Min (int ` fst ` set (true_positions m)),
                Max (int ` snd ` set (true_positions m)), Max (int ` fst ` set (true_positions m))))"
  by (simp add: bbox_def np_where_def np_min_eq np_max_eq image_image)

lemma boxes_loop_Inr_iff:
  "boxes_loop ms = Inr bs \<longleftrightarrow> map bbox ms = map Inr bs"
proof (induction ms arbitrary: bs)
  case Nil
  then show ?case by auto
next
  case (Cons m ms)
  show ?case
  proof (cases "boxes_loop ms")
    case (Inl e)
    with Cons.IH have "\<And>bs'. map bbox ms \<noteq> map Inr bs'" by simp
    with Inl show ?thesis by (cases bs) (auto split: sum.splits)
  next
    case (Inr bl)
    with Cons.IH [of bl] have "map bbox ms = map Inr bl" by simp
    with Inr show ?thesis by (cases bs) (auto split: sum.splits)
  qed
qed

lemma boxes_loop_Inr_nth:
  assumes "boxes_loop ms = Inr bs"
  shows "length bs = length ms" and "i < length ms \<Longrightarrow> bbox (ms ! i) = Inr (bs ! i)"
proof -
  from assms have eq: "map bbox ms = map Inr bs" by (simp add: boxes_loop_Inr_iff)
  then have "length (map bbox ms) = length (map Inr bs)" by simp
  then show len: "length bs = length ms" by simp
  assume i: "i < length ms"
  from eq have "map bbox ms ! i = map Inr bs ! i" by simp
  with i len show "bbox (ms ! i) = Inr (bs ! i)" by simp
qed

lemma boxes_loop_Inl:
  "boxes_loop ms = Inl e \<Longrightarrow> \<exists>m\<in>set ms. bbox m = Inl e"
  by (induction ms) (auto split: sum.splits)

lemma bbox_Inl: "bbox m = Inl e \<Longrightarrow> e = ValueError \<and> true_positions m = []"
  by (simp add: bbox_eq split: if_splits)

lemma target_of_ids_Inr:
  assumes "target_of_ids idx a ids = Inr t"
  obtains bl where "boxes_loop (eq_broadcast a ids) = Inr bl" and "bl \<noteq> []"
    and "t = \<lparr>boxes = as_tensor_float32 bl, labels = replicate (length ids) 1,
              masks = as_tensor_uint8 (eq_broadcast a ids), image_id = [idx],
              area = map box_area (as_tensor_float32 bl), iscrowd = replicate (length ids) 0\<rparr>"
  using assms
  by (auto simp: target_of_ids_def Let_def as_tensor_float32_def split: sum.splits if_splits)

lemma target_of_ids_Inr_intro:
  assumes "boxes_loop (eq_broadcast a ids) = Inr bl" and "bl \<noteq> []"
  shows "target_of_ids idx a ids =
           Inr \<lparr>boxes = as_tensor_float32 bl, labels = replicate (length ids) 1,
              masks = as_tensor_uint8 (eq_broadcast a ids), image_id = [idx],
              area = map box_area (as_tensor_float32 bl), iscrowd = replicate (length ids) 0\<rparr>"
  using assms by (simp add: target_of_ids_def Let_def as_tensor_float32_def)

lemma bbox_mask:
  "bbox (map (map (\<lambda>p. p = v)) (cells a)) =
     (if v \<in> set (concat (cells a)) then Inr (extent (label_positions a v)) else Inl ValueError)"
proof -
  have "true_positions (map (map (\<lambda>p. p = v)) (cells a)) = [] \<longleftrightarrow>
          label_positions a v = {}"
    using set_true_positions_mask [of v a] by (metis set_empty)
  then show ?thesis
    by (simp add: bbox_eq set_true_positions_mask extent_def label_positions_empty_iff)
qed

lemma raw_boxes:
  assumes "boxes_loop (eq_broadcast a ids) = Inr bl"
  shows "length bl = length ids"
    and "i < length ids \<Longrightarrow> ids ! i \<in> set (concat (cells a))"
    and "i < length ids \<Longrightarrow> bl ! i = extent (label_positions a (ids ! i))"
proof -
  show len: "length bl = length ids"
    using boxes_loop_Inr_nth(1) [OF assms] by (simp add: eq_broadcast_def)
  assume i: "i < length ids"
  then have "bbox (eq_broadcast a ids ! i) = Inr (bl ! i)"
    using boxes_loop_Inr_nth(2) [OF assms, of i] by (simp add: eq_broadcast_def)
  with i have b: "bbox (map (map (\<lambda>p. p = ids ! i)) (cells a)) = Inr (bl ! i)"
    by (simp add: eq_broadcast_def)
  then show "ids ! i \<in> set (concat (cells a))"
    by (simp add: bbox_mask split: if_splits)
  with b show "bl ! i = extent (label_positions a (ids ! i))"
    by (simp add: bbox_mask)
qed

lemma boxes_loop_masks:
  assumes "set ids \<subseteq> set (concat (cells a))"
  shows "boxes_loop (eq_broadcast a ids) = Inr (map (\<lambda>v. extent (label_positions a v)) ids)"
  using assms by (simp add: boxes_loop_Inr_iff eq_broadcast_def bbox_mask subset_iff)

lemma label_positions_wf:
  assumes "wf_array a" and "(r, c) \<in> label_positions a v"
  shows "r < nrows a" and "c < ncols a" and "cells a ! r ! c = v"
  using assms by (auto simp: wf_array_def label_positions_def list_all_length)

lemma label_positions_iff:
  assumes "wf_array a"
  shows "(r, c) \<in> label_positions a v \<longleftrightarrow> r < nrows a \<and> c < ncols a \<and> cells a ! r ! c = v"
  using assms by (auto simp: wf_array_def label_positions_def list_all_length)

lemma mask_nth:
  assumes "wf_array a" and "i < length ids" and "r < nrows a" and "c < ncols a"
  shows "as_tensor_uint8 (eq_broadcast a ids) ! i ! r ! c = (if cells a ! r ! c = ids ! i then 1 else 0)"
  using assms by (simp add: as_tensor_uint8_def eq_broadcast_def wf_array_def list_all_length)

lemma extent_bounds:
  assumes "finite P" and "(r, c) \<in> P" and "extent P = (x0, y0, x1, y1)"
  shows "x0 \<le> int c" and "int c \<le> x1" and "y0 \<le> int r" and "int r \<le> y1"
proof -
  from assms(1,2) have c: "int c \<in> int ` snd ` P" "finite (int ` snd ` P)"
    and r: "int r \<in> int ` fst ` P" "finite (int ` fst ` P)"
    by force+
  from assms(3) have e: "x0 = Min (int ` snd ` P)" "x1 = Max (int ` snd ` P)"
    "y0 = Min (int ` fst ` P)" "y1 = Max (int ` fst ` P)"
    by (simp_all add: extent_def)
  show "x0 \<le> int c" using c e by simp
  show "int c \<le> x1" using c e by simp
  show "y0 \<le> int r" using r e by simp
  show "int r \<le> y1" using r e by simp
qed

lemma extent_attained:
  assumes "finite P" and "P \<noteq> {}" and "extent P = (x0, y0, x1, y1)"
  shows "\<exists>r c. (r, c) \<in> P \<and> int c = x0" and "\<exists>r c. (r, c) \<in> P \<and> int c = x1"
    and "\<exists>r c. (r, c) \<in> P \<and> int r = y0" and "\<exists>r c. (r, c) \<in> P \<and> int r = y1"
proof -
  from assms(1,2) have c: "int ` snd ` P \<noteq> {}" "finite (int ` snd ` P)"
    and r: "int ` fst ` P \<noteq> {}" "finite (int ` fst ` P)"
    by simp_all
  from assms(3) have e: "x0 = Min (int ` snd ` P)" "x1 = Max (int ` snd ` P)"
    "y0 = Min (int ` fst ` P)" "y1 = Max (int ` fst ` P)"
    by (simp_all add: extent_def)
  have "x0 \<in> int ` snd ` P" unfolding e using c by (intro Min_in)
  then show "\<exists>r c. (r, c) \<in> P \<and> int c = x0" by force
  have "x1 \<in> int ` snd ` P" unfolding e using c by (intro Max_in)
  then show "\<exists>r c. (r, c) \<in> P \<and> int c = x1" by force
  have "y0 \<in> int ` fst ` P" unfolding e using r by (intro Min_in)
  then show "\<exists>r c. (r, c) \<in> P \<and> int r = y0" by force
  have "y1 \<in> int ` fst ` P" unfolding e using r by (intro Max_in)
  then show "\<exists>r c. (r, c) \<in> P \<and> int r = y1" by force
qed

text \<open>The raw (integer) box of an instance lies inside the image.\<close>

lemma extent_in_image:
  assumes wf: "wf_array a" and ne: "label_positions a v \<noteq> {}"
    and e: "extent (label_positions a v) = (x0, y0, x1, y1)"
  shows "0 \<le> x0" and "x0 \<le> x1" and "x1 < int (ncols a)"
    and "0 \<le> y0" and "y0 \<le> y1" and "y1 < int (nrows a)"
proof -
  let ?P = "label_positions a v"
  have fin: "finite ?P" by (rule finite_label_positions)
  obtain r c where 1: "(r, c) \<in> ?P" "int c = x0"
    using extent_attained(1) [OF fin ne e] by blast
  obtain r' c' where 2: "(r', c') \<in> ?P" "int c' = x1"
    using extent_attained(2) [OF fin ne e] by blast
  obtain r'' c'' where 3: "(r'', c'') \<in> ?P" "int r'' = y0"
    using extent_attained(3) [OF fin ne e] by blast
  obtain r3 c3 where 4: "(r3, c3) \<in> ?P" "int r3 = y1"
    using extent_attained(4) [OF fin ne e] by blast
  show "0 \<le> x0" using 1 by simp
  show "0 \<le> y0" using 3 by simp
  show "x0 \<le> x1" using extent_bounds(2) [OF fin 1(1) e] 1(2) by simp
  show "y0 \<le> y1" using extent_bounds(4) [OF fin 3(1) e] 3(2) by simp
  show "x1 < int (ncols a)" using label_positions_wf(2) [OF wf 2(1)] 2(2) by simp
  show "y1 < int (nrows a)" using label_positions_wf(1) [OF wf 4(1)] 4(2) by simp
qed

text \<open>What a successful call returns, instance by instance.\<close>

lemma getitem_Inr_instance:
  assumes ok: "getitem idx a = Inr t" and i: "i < length (obj_ids a)"
  shows "obj_ids a ! i \<in> set (concat (cells a))"
    and "boxes t ! i = (case extent (label_positions a (obj_ids a ! i)) of
           (x0, y0, x1, y1) \<Rightarrow> (float32 x0, float32 y0, float32 x1, float32 y1))"
    and "area t ! i = box_area (boxes t ! i)"
    and "masks t = as_tensor_uint8 (eq_broadcast a (obj_ids a))"
proof -
  from ok obtain bl where bl: "boxes_loop (eq_broadcast a (obj_ids a)) = Inr bl"
    and t: "t = \<lparr>boxes = as_tensor_float32 bl, labels = replicate (length (obj_ids a)) 1,
              masks = as_tensor_uint8 (eq_broadcast a (obj_ids a)), image_id = [idx],
              area = map box_area (as_tensor_float32 bl),
              iscrowd = replicate (length (obj_ids a)) 0\<rparr>"
    unfolding getitem_def by (rule target_of_ids_Inr)
  note rb = raw_boxes [OF bl]
  show "obj_ids a ! i \<in> set (concat (cells a))" using rb(2) i by simp
  from i rb(1) have il: "i < length bl" by simp
  then show "boxes t ! i = (case extent (label_positions a (obj_ids a ! i)) of
           (x0, y0, x1, y1) \<Rightarrow> (float32 x0, float32 y0, float32 x1, float32 y1))"
    using rb(3) [OF i] by (simp add: t as_tensor_float32_def)
  from il show "area t ! i = box_area (boxes t ! i)"
    by (simp add: t as_tensor_float32_def)
  show "masks t = as_tensor_uint8 (eq_broadcast a (obj_ids a))" by (simp add: t)
qed

lemma getitem_Inr_lengths:
  assumes ok: "getitem idx a = Inr t"
  shows "length (boxes t) = length (obj_ids a)" and "length (labels t) = length (obj_ids a)"
    and "length (masks t) = length (obj_ids a)" and "length (area t) = length (obj_ids a)"
    and "length (iscrowd t) = length (obj_ids a)" and "obj_ids a \<noteq> []"
proof -
  from ok obtain bl where bl: "boxes_loop (eq_broadcast a (obj_ids a)) = Inr bl"
    and ne: "bl \<noteq> []"
    and t: "t = \<lparr>boxes = as_tensor_float32 bl, labels = replicate (length (obj_ids a)) 1,
              masks = as_tensor_uint8 (eq_broadcast a (obj_ids a)), image_id = [idx],
              area = map box_area (as_tensor_float32 bl),
              iscrowd = replicate (length (obj_ids a)) 0\<rparr>"
    unfolding getitem_def by (rule target_of_ids_Inr)
  note len = raw_boxes(1) [OF bl]
  show "length (boxes t) = length (obj_ids a)" using len by (simp add: t as_tensor_float32_def)
  show "length (labels t) = length (obj_ids a)" by (simp add: t)
  show "length (masks t) = length (obj_ids a)"
    by (simp add: t as_tensor_uint8_def eq_broadcast_def)
  show "length (area t) = length (obj_ids a)" using len by (simp add: t as_tensor_float32_def)
  show "length (iscrowd t) = length (obj_ids a)" by (simp add: t)
  show "obj_ids a \<noteq> []" using len ne by auto
qed

section \<open>Failures and the enumeration of ids\<close>

lemma obj_ids_cases:
  "unique a = [] \<and> obj_ids a = [] \<or> (\<exists>x. unique a = x # obj_ids a)"
  by (cases "unique a") (simp_all add: obj_ids_def)

lemma obj_ids_with_background:
  assumes "0 \<in> set (concat (cells a))"
  shows "set (obj_ids a) = set (concat (cells a)) - {0}"
proof -
  from assms have "0 \<in> set (unique a)" by (simp add: set_unique)
  then obtain x where u: "unique a = x # obj_ids a"
    using obj_ids_cases [of a] by auto
  with sorted_unique [of a] distinct_unique [of a] \<open>0 \<in> set (unique a)\<close>
  have "x = 0" and "0 \<notin> set (obj_ids a)" by auto
  with u have "set (unique a) - {0} = set (obj_ids a)" by auto
  then show ?thesis by (simp add: set_unique)
qed

lemma target_of_no_ids: "target_of_ids idx a [] = Inl IndexError"
  by (simp add: target_of_ids_def eq_broadcast_def as_tensor_float32_def)

lemma all_background_IndexError:
  assumes "set (concat (cells a)) \<subseteq> {0}"
  shows "getitem idx a = Inl IndexError"
proof -
  have "length (unique a) \<le> 1"
  proof -
    have "length (unique a) = card (set (unique a))"
      using distinct_unique [of a] by (simp add: distinct_card)
    also have "\<dots> \<le> card {0::nat}"
      using assms by (intro card_mono) (simp_all add: set_unique)
    finally show ?thesis by simp
  qed
  then have "obj_ids a = []" by (simp add: obj_ids_def)
  then show ?thesis by (simp add: getitem_def target_of_no_ids)
qed

lemma boxes_loop_error:
  assumes "boxes_loop ms = Inl e"
  shows "e = ValueError" and "\<exists>m\<in>set ms. true_positions m = []"
proof -
  from assms obtain m where m: "m \<in> set ms" "bbox m = Inl e"
    using boxes_loop_Inl by blast
  from bbox_Inl [OF m(2)] show "e = ValueError" by simp
  from bbox_Inl [OF m(2)] m(1) show "\<exists>m\<in>set ms. true_positions m = []" by blast
qed

lemma getitem_not_ValueError: "getitem idx a \<noteq> Inl ValueError"
proof
  assume "getitem idx a = Inl ValueError"
  then obtain e where "boxes_loop (eq_broadcast a (obj_ids a)) = Inl e"
    by (auto simp: getitem_def target_of_ids_def Let_def split: sum.splits if_splits)
  then obtain m where m: "m \<in> set (eq_broadcast a (obj_ids a))" "true_positions m = []"
    using boxes_loop_error(2) by blast
  from m(1) obtain v where v: "v \<in> set (obj_ids a)" "m = map (map (\<lambda>p. p = v)) (cells a)"
    by (auto simp: eq_broadcast_def)
  from m(2) v(2) have "label_positions a v = {}"
    using set_true_positions_mask [of v a] by simp
  then have "v \<notin> set (concat (cells a))" by (simp add: label_positions_empty_iff)
  with v(1) set_obj_ids_subset [of a] show False by auto
qed


text \<open>
  With the ids taken from the image itself, every mask has a true position and the loop
  never raises. The only failure of the call is the \<open>IndexError\<close> of the area line, and
  it happens exactly when no id is left after the first one is dropped.
\<close>

lemma getitem_Inl_iff: "getitem idx a = Inl e \<longleftrightarrow> e = IndexError \<and> obj_ids a = []"
proof
  assume f: "getitem idx a = Inl e"
  show "e = IndexError \<and> obj_ids a = []"
  proof (cases "boxes_loop (eq_broadcast a (obj_ids a))")
    case (Inl e')
    then have "e' = ValueError" by (rule boxes_loop_error(1))
    with Inl have "getitem idx a = Inl ValueError"
      by (simp add: getitem_def target_of_ids_def)
    with getitem_not_ValueError show ?thesis by blast
  next
    case (Inr bl)
    from raw_boxes(1) [OF Inr] have len: "length bl = length (obj_ids a)" .
    from f Inr have "e = IndexError \<and> bl = []"
      by (auto simp: getitem_def target_of_ids_def Let_def as_tensor_float32_def
               split: if_splits)
    with len show ?thesis by simp
  qed
next
  assume "e = IndexError \<and> obj_ids a = []"
  then show "getitem idx a = Inl e" by (simp add: getitem_def target_of_no_ids)
qed

lemma mask_true_iff:
  assumes wf: "wf_array a" and ok: "getitem idx a = Inr t"
    and i: "i < length (obj_ids a)" and r: "r < nrows a" and c: "c < ncols a"
  shows "masks t ! i ! r ! c = (if cells a ! r ! c = obj_ids a ! i then 1 else 0)"
  using getitem_Inr_instance(4) [OF ok i] mask_nth [OF wf i r c] by simp

text \<open>The equations that evaluate the function on a small array.\<close>

lemmas getitem_eval =
  getitem_def obj_ids_def unique_def target_of_ids_def eq_broadcast_def bbox_def np_where_def
  true_positions_def as_tensor_float32_def as_tensor_uint8_def box_area_def float32_small

section \<open>Exact boxes, and the calls on the sample images\<close>

text \<open>
  When the image has at most \<open>2 ^ 24 + 1 = 16777217\<close> rows and columns, every coordinate
  is a float32 value and the reported box is the extent of the label's positions.
\<close>

lemma reported_box_exact:
  assumes wf: "wf_array a" and h: "nrows a \<le> 16777217" and w: "ncols a \<le> 16777217"
    and ok: "getitem idx a = Inr t" and i: "i < length (obj_ids a)"
  shows "boxes t ! i = extent (label_positions a (obj_ids a ! i))"
proof -
  let ?P = "label_positions a (obj_ids a ! i)"
  obtain x0 y0 x1 y1 where e: "extent ?P = (x0, y0, x1, y1)" by (cases "extent ?P") auto
  have ne: "?P \<noteq> {}"
    using getitem_Inr_instance(1) [OF ok i] by (simp add: label_positions_empty_iff)
  note b = extent_in_image [OF wf ne e]
  from b h w have "\<bar>x0\<bar> \<le> 16777216" "\<bar>y0\<bar> \<le> 16777216" "\<bar>x1\<bar> \<le> 16777216" "\<bar>y1\<bar> \<le> 16777216"
    by linarith+
  then have "float32 x0 = x0" "float32 y0 = y0" "float32 x1 = x1" "float32 y1 = y1"
    by (simp_all add: float32_exact)
  with getitem_Inr_instance(2) [OF ok i] e show ?thesis by simp
qed

lemma obj_ids_two_values:
  assumes "set (concat (cells a)) = {0, v}" and "0 < v"
  shows "obj_ids a = [v]"
proof -
  have "unique a = sorted_list_of_set (set (concat (cells a)))"
    unfolding unique_def by (rule sorted_list_of_set_sort_remdups [symmetric])
  also have "\<dots> = [0, v]" using assms by simp
  finally show ?thesis by (simp add: obj_ids_def)
qed

lemma single_instance:
  assumes ids: "obj_ids a = [v]" and v: "v \<in> set (concat (cells a))"
  shows "getitem idx a =
    Inr \<lparr>boxes = as_tensor_float32 [extent (label_positions a v)],
         labels = [1],
         masks = as_tensor_uint8 (eq_broadcast a [v]),
         image_id = [idx],
         area = map box_area (as_tensor_float32 [extent (label_positions a v)]),
         iscrowd = [0]\<rparr>"
proof -
  from v have "boxes_loop (eq_broadcast a [v]) = Inr [extent (label_positions a v)]"
    using boxes_loop_masks [of "[v]" a] by simp
  then show ?thesis
    using target_of_ids_Inr_intro [of a "[v]" "[extent (label_positions a v)]" idx]
    by (simp add: getitem_def ids)
qed

lemma extent_corners:
  assumes wf: "wf_array a" and tl: "(0, 0) \<in> label_positions a v"
    and br: "(nrows a - 1, ncols a - 1) \<in> label_positions a v"
  shows "extent (label_positions a v) = (0, 0, int (ncols a - 1), int (nrows a - 1))"
proof -
  let ?P = "label_positions a v"
  obtain x0 y0 x1 y1 where e: "extent ?P = (x0, y0, x1, y1)" by (cases "extent ?P") auto
  have fin: "finite ?P" by (rule finite_label_positions)
  from tl have ne: "?P \<noteq> {}" by auto
  note inb = extent_in_image [OF wf ne e]
  note b1 = extent_bounds [OF fin tl e]
  note b2 = extent_bounds [OF fin br e]
  from inb(1) b1(1) have "x0 = 0" by simp
  moreover from inb(4) b1(3) have "y0 = 0" by simp
  moreover from inb(3) b2(2) have "x1 = int (ncols a - 1)" by linarith
  moreover from inb(6) b2(4) have "y1 = int (nrows a - 1)" by linarith
  ultimately show ?thesis using e by simp
qed

lemma strip_image_positions: "label_positions strip_image 1 = {(0, 16777217)}"
  by (auto simp: label_positions_def strip_image_def nth_append split: if_splits)

lemma strip_image_values: "set (concat (cells strip_image)) = {0, 1}"
  by (auto simp: strip_image_def)

lemma wf_square_image: "wf_array square_image"
  by (simp add: square_image_def wf_array_def list_all_iff)

lemma square_image_values: "set (concat (cells square_image)) = {0, 1}"
  by (auto simp: square_image_def)

lemma square_image_corners:
  "(0, 0) \<in> label_positions square_image 1"
  "(nrows square_image - 1, ncols square_image - 1) \<in> label_positions square_image 1"
  by (simp_all add: square_image_def label_positions_def nth_append)

lemma wf_example_grid: "wf_array example_grid"
  by (simp add: example_grid_def wf_array_def)

lemma getitem_example_grid: "getitem 0 example_grid = Inr example_target"
  by (simp add: example_grid_def example_target_def getitem_eval)

lemma obj_ids_example_grid: "obj_ids example_grid = [1, 2]"
  by (simp add: example_grid_def obj_ids_def unique_def)

section \<open>The claims\<close>

text \<open>
  Claim C1 says that every distinct positive value of the image gets an instance, also the
  smallest one when no pixel is 0. The code removes the first of the sorted distinct values
  whatever it is (its comment reads "first id is the background, so remove it"): on the
  1x2 grid \<open>[[1, 2]]\<close>, which has no background pixel, the result has a single instance,
  the one of label 2, and label 1 has none.
\<close>

theorem smallest_label_dropped:
  "getitem idx \<lparr>nrows = 1, ncols = 2, cells = [[1, 2]]\<rparr> =
     Inr \<lparr>boxes = [(1, 0, 1, 0)], labels = [1], masks = [[[0, 1]]],
          image_id = [idx], area = [0], iscrowd = [0]\<rparr>"
  by (simp add: getitem_eval)

text \<open>
  Claim C2 says that an image whose pixels are all 0 gives a valid result with zero
  instances. The code builds the empty box list, whose tensor has shape \<open>[0]\<close> and not
  \<open>[0, 4]\<close>, and the area line \<open>boxes[:, 3]\<close> raises \<open>IndexError\<close>: on the 1x1 grid
  \<open>[[0]]\<close> the call fails.
\<close>

theorem all_zero_grid_raises:
  "getitem idx \<lparr>nrows = 1, ncols = 1, cells = [[0]]\<rparr> = Inl IndexError"
  by (simp add: getitem_eval)

text \<open>
  Claim C3, amended: for every instance of a result on an image with at most
  \<open>2 ^ 24 + 1 = 16777217\<close> rows and columns, the reported box is the least rectangle
  that contains the true positions of the instance's mask: no true pixel lies outside it,
  each of the four bounds is attained by a true pixel, and \<open>xmin \<le> xmax\<close>,
  \<open>ymin \<le> ymax\<close>.
\<close>

theorem bbox_tight:
  assumes wf: "wf_array a" and h: "nrows a \<le> 16777217" and w: "ncols a \<le> 16777217"
    and ok: "getitem idx a = Inr t" and i: "i < length (boxes t)"
    and b: "boxes t ! i = (xmin, ymin, xmax, ymax)"
  shows "(\<forall>r<nrows a. \<forall>c<ncols a. masks t ! i ! r ! c = 1 \<longrightarrow>
            xmin \<le> int c \<and> int c \<le> xmax \<and> ymin \<le> int r \<and> int r \<le> ymax)
       \<and> (\<exists>r<nrows a. \<exists>c<ncols a. masks t ! i ! r ! c = 1 \<and> int c = xmin)
       \<and> (\<exists>r<nrows a. \<exists>c<ncols a. masks t ! i ! r ! c = 1 \<and> int c = xmax)
       \<and> (\<exists>r<nrows a. \<exists>c<ncols a. masks t ! i ! r ! c = 1 \<and> int r = ymin)
       \<and> (\<exists>r<nrows a. \<exists>c<ncols a. masks t ! i ! r ! c = 1 \<and> int r = ymax)
       \<and> xmin \<le> xmax \<and> ymin \<le> ymax"
proof -
  let ?v = "obj_ids a ! i"
  let ?P = "label_positions a ?v"
  from i have i': "i < length (obj_ids a)" by (simp add: getitem_Inr_lengths(1) [OF ok])
  have e: "extent ?P = (xmin, ymin, xmax, ymax)"
    using reported_box_exact [OF wf h w ok i'] b by simp
  have fin: "finite ?P" by (rule finite_label_positions)
  have ne: "?P \<noteq> {}"
    using getitem_Inr_instance(1) [OF ok i'] by (simp add: label_positions_empty_iff)
  have mask: "masks t ! i ! r ! c = 1 \<longleftrightarrow> (r, c) \<in> ?P" if "r < nrows a" "c < ncols a" for r c
    using mask_true_iff [OF wf ok i' that] that by (simp add: label_positions_iff [OF wf])
  have inside: "r < nrows a \<and> c < ncols a \<and> masks t ! i ! r ! c = 1" if "(r, c) \<in> ?P" for r c
    using that label_positions_wf(1,2) [OF wf that] mask by simp
  have 1: "\<forall>r<nrows a. \<forall>c<ncols a. masks t ! i ! r ! c = 1 \<longrightarrow>
            xmin \<le> int c \<and> int c \<le> xmax \<and> ymin \<le> int r \<and> int r \<le> ymax"
    using extent_bounds [OF fin _ e] mask by blast
  have 2: "\<exists>r<nrows a. \<exists>c<ncols a. masks t ! i ! r ! c = 1 \<and> int c = xmin"
    using extent_attained(1) [OF fin ne e] inside by blast
  have 3: "\<exists>r<nrows a. \<exists>c<ncols a. masks t ! i ! r ! c = 1 \<and> int c = xmax"
    using extent_attained(2) [OF fin ne e] inside by blast
  have 4: "\<exists>r<nrows a. \<exists>c<ncols a. masks t ! i ! r ! c = 1 \<and> int r = ymin"
    using extent_attained(3) [OF fin ne e] inside by blast
  have 5: "\<exists>r<nrows a. \<exists>c<ncols a. masks t ! i ! r ! c = 1 \<and> int r = ymax"
    using extent_attained(4) [OF fin ne e] inside by blast
  have 6: "xmin \<le> xmax" "ymin \<le> ymax"
    using extent_in_image(2,5) [OF wf ne e] by simp_all
  from 1 2 3 4 5 6 show ?thesis by blast
qed

theorem bbox_tight_witness:
  "wf_array example_grid
   \<and> nrows example_grid \<le> 16777217 \<and> ncols example_grid \<le> 16777217
   \<and> getitem 0 example_grid = Inr example_target
   \<and> 1 < length (boxes example_target)
   \<and> boxes example_target ! 1 = (0, 2, 1, 2)
   \<and> (2 < nrows example_grid \<and> 1 < ncols example_grid
       \<and> masks example_target ! 1 ! 2 ! 1 = 1
       \<and> (0::int) \<le> int 1 \<and> int 1 \<le> 1 \<and> (2::int) \<le> int 2 \<and> int 2 \<le> 2)
   \<and> (\<exists>r<nrows example_grid. \<exists>c<ncols example_grid.
         masks example_target ! 1 ! r ! c = 1 \<and> int c = 0)
   \<and> (\<exists>r<nrows example_grid. \<exists>c<ncols example_grid.
         masks example_target ! 1 ! r ! c = 1 \<and> int c = 1)
   \<and> (\<exists>r<nrows example_grid. \<exists>c<ncols example_grid.
         masks example_target ! 1 ! r ! c = 1 \<and> int r = 2)
   \<and> (0::int) \<le> 1 \<and> (2::int) \<le> 2"
proof -
  have h: "nrows example_grid \<le> 16777217" and w: "ncols example_grid \<le> 16777217"
    by (simp_all add: example_grid_def)
  have ok: "getitem 0 example_grid = Inr example_target" by (rule getitem_example_grid)
  have i: "1 < length (boxes example_target)" by (simp add: example_target_def)
  have b: "boxes example_target ! 1 = (0, 2, 1, 2)" by (simp add: example_target_def)
  have p: "2 < nrows example_grid" "1 < ncols example_grid"
    "masks example_target ! 1 ! 2 ! 1 = 1"
    by (simp_all add: example_grid_def example_target_def)
  note c = bbox_tight [OF wf_example_grid h w ok i b]
  from c p have "(0::int) \<le> int 1 \<and> int 1 \<le> 1 \<and> (2::int) \<le> int 2 \<and> int 2 \<le> 2" by blast
  with c p wf_example_grid h w ok i b show ?thesis by blast
qed

text \<open>
  Claim C3 as stated fails on the strip: its only labelled pixel is in column 16777217,
  which is not a float32 value, and the box stored in the float32 tensor has
  \<open>xmin = xmax = 16777216\<close>; the true pixel lies outside the box.
\<close>

theorem bbox_float32_counterexample:
  "getitem 0 \<lparr>nrows = 1, ncols = 16777218, cells = [replicate 16777217 0 @ [1]]\<rparr> =
     Inr \<lparr>boxes = [(16777216, 0, 16777216, 0)], labels = [1],
          masks = [[replicate 16777217 0 @ [1]]], image_id = [0], area = [0], iscrowd = [0]\<rparr>
   \<and> (replicate 16777217 0 @ [1]) ! 16777217 = (1::nat)"
proof -
  have ids: "obj_ids strip_image = [1]"
    using strip_image_values by (intro obj_ids_two_values) simp_all
  have v: "1 \<in> set (concat (cells strip_image))" unfolding strip_image_values by simp
  have "getitem 0 strip_image =
     Inr \<lparr>boxes = [(16777216, 0, 16777216, 0)], labels = [1],
          masks = [[replicate 16777217 0 @ [1]]], image_id = [0], area = [0], iscrowd = [0]\<rparr>"
    unfolding single_instance [OF ids v] strip_image_positions
    by (simp add: extent_def as_tensor_float32_def float32_16777217 float32_small box_area_def
          as_tensor_uint8_def eq_broadcast_def strip_image_def)
  then show ?thesis by (simp add: strip_image_def nth_append)
qed

text \<open>
  Claim C4, amended: for every instance of a result on an image with at most 16777217
  rows and columns and with \<open>(H - 1) * (W - 1) \<le> 2 ^ 24\<close> (every image of at most
  16777216 pixels is one), the reported area is exactly
  \<open>(xmax - xmin) * (ymax - ymin)\<close> of the reported box.
\<close>

theorem area_identity:
  assumes wf: "wf_array a" and h: "nrows a \<le> 16777217" and w: "ncols a \<le> 16777217"
    and hw: "(nrows a - 1) * (ncols a - 1) \<le> 16777216"
    and ok: "getitem idx a = Inr t" and i: "i < length (boxes t)"
    and b: "boxes t ! i = (xmin, ymin, xmax, ymax)"
  shows "i < length (area t) \<and> area t ! i = (xmax - xmin) * (ymax - ymin)"
proof -
  let ?v = "obj_ids a ! i"
  let ?P = "label_positions a ?v"
  note len = getitem_Inr_lengths [OF ok]
  from i have i': "i < length (obj_ids a)" by (simp add: len(1))
  have e: "extent ?P = (xmin, ymin, xmax, ymax)"
    using reported_box_exact [OF wf h w ok i'] b by simp
  have ne: "?P \<noteq> {}"
    using getitem_Inr_instance(1) [OF ok i'] by (simp add: label_positions_empty_iff)
  note bd = extent_in_image [OF wf ne e]
  have dx: "0 \<le> xmax - xmin" "xmax - xmin \<le> int (ncols a - 1)"
    and dy: "0 \<le> ymax - ymin" "ymax - ymin \<le> int (nrows a - 1)"
    using bd by linarith+
  have "(ymax - ymin) * (xmax - xmin) \<le> int (nrows a - 1) * int (ncols a - 1)"
    using dx dy by (intro mult_mono) simp_all
  also have "\<dots> = int ((nrows a - 1) * (ncols a - 1))" by simp
  also have "\<dots> \<le> 16777216" using hw by linarith
  finally have p: "(ymax - ymin) * (xmax - xmin) \<le> 16777216" .
  have p0: "0 \<le> (ymax - ymin) * (xmax - xmin)" using dx dy by simp
  from dx w have fx: "float32 (xmax - xmin) = xmax - xmin"
    by (intro float32_exact) linarith
  from dy h have fy: "float32 (ymax - ymin) = ymax - ymin"
    by (intro float32_exact) linarith
  from p p0 have fp: "float32 ((ymax - ymin) * (xmax - xmin)) = (ymax - ymin) * (xmax - xmin)"
    by (intro float32_exact) linarith
  have "area t ! i = box_area (boxes t ! i)" by (rule getitem_Inr_instance(3) [OF ok i'])
  also have "\<dots> = (ymax - ymin) * (xmax - xmin)" by (simp add: b box_area_def fx fy fp)
  finally have "area t ! i = (xmax - xmin) * (ymax - ymin)" by (simp add: mult.commute)
  moreover have "i < length (area t)" using i' by (simp add: len(4))
  ultimately show ?thesis by simp
qed

theorem area_identity_witness:
  "wf_array example_grid
   \<and> nrows example_grid \<le> 16777217 \<and> ncols example_grid \<le> 16777217
   \<and> (nrows example_grid - 1) * (ncols example_grid - 1) \<le> 16777216
   \<and> getitem 0 example_grid = Inr example_target
   \<and> 0 < length (boxes example_target)
   \<and> boxes example_target ! 0 = (1, 0, 2, 1)
   \<and> 0 < length (area example_target)
   \<and> area example_target ! 0 = (2 - 1) * (1 - 0)"
proof -
  have h: "nrows example_grid \<le> 16777217" and w: "ncols example_grid \<le> 16777217"
    and hw: "(nrows example_grid - 1) * (ncols example_grid - 1) \<le> 16777216"
    by (simp_all add: example_grid_def)
  have ok: "getitem 0 example_grid = Inr example_target" by (rule getitem_example_grid)
  have i: "0 < length (boxes example_target)" by (simp add: example_target_def)
  have b: "boxes example_target ! 0 = (1, 0, 2, 1)" by (simp add: example_target_def)
  from area_identity [OF wf_example_grid h w hw ok i b] wf_example_grid h w hw ok i b
  show ?thesis by blast
qed

text \<open>
  Claim C4 as stated fails on the square: the box of label 1 is (0, 0, 4097, 4097), the
  product \<open>4097 * 4097 = 16785409\<close> is not a float32 value, and the reported area is
  16785408.
\<close>

theorem area_float32_counterexample:
  "map_sum id boxes (getitem 0 \<lparr>nrows = 4098, ncols = 4098,
     cells = (1 # replicate 4097 0) # replicate 4096 (replicate 4098 0) @ [replicate 4097 0 @ [1]]\<rparr>)
     = Inr [(0, 0, 4097, 4097)]
   \<and> map_sum id area (getitem 0 \<lparr>nrows = 4098, ncols = 4098,
     cells = (1 # replicate 4097 0) # replicate 4096 (replicate 4098 0) @ [replicate 4097 0 @ [1]]\<rparr>)
     = Inr [16785408]
   \<and> (4097 - 0) * (4097 - 0) = (16785409::int)"
proof -
  have ids: "obj_ids square_image = [1]"
    using square_image_values by (intro obj_ids_two_values) simp_all
  have v: "1 \<in> set (concat (cells square_image))" unfolding square_image_values by simp
  have e: "extent (label_positions square_image 1) = (0, 0, 4097, 4097)"
    using extent_corners [OF wf_square_image square_image_corners] by (simp add: square_image_def)
  have "map_sum id boxes (getitem 0 square_image) = Inr [(0, 0, 4097, 4097)]"
    and "map_sum id area (getitem 0 square_image) = Inr [16785408]"
    unfolding single_instance [OF ids v] e
    by (simp_all add: as_tensor_float32_def float32_small box_area_def float32_16785409)
  then show ?thesis by (simp add: square_image_def)
qed

text \<open>
  Claim C5: the instances are enumerated in strictly ascending order of their label
  value, whatever the arrangement of the labels in the image. The ids are strictly
  ascending, and in every result the i-th mask is the mask of the i-th id.
\<close>

theorem instances_ascending:
  "sorted_wrt (<) (obj_ids a)
   \<and> (\<forall>t. getitem idx a = Inr t \<longrightarrow>
         length (masks t) = length (obj_ids a)
         \<and> (\<forall>i<length (obj_ids a).
               masks t ! i = map (map (\<lambda>p. if p = obj_ids a ! i then 1 else 0)) (cells a)))"
proof (intro conjI allI impI)
  show "sorted_wrt (<) (obj_ids a)" by (rule strict_sorted_obj_ids)
next
  fix t assume ok: "getitem idx a = Inr t"
  then show "length (masks t) = length (obj_ids a)" by (rule getitem_Inr_lengths(3))
next
  fix t i assume ok: "getitem idx a = Inr t" and i: "i < length (obj_ids a)"
  from getitem_Inr_instance(4) [OF ok i] i
  show "masks t ! i = map (map (\<lambda>p. if p = obj_ids a ! i then 1 else 0)) (cells a)"
    by (simp add: as_tensor_uint8_def eq_broadcast_def)
qed

theorem instances_ascending_witness:
  "sorted_wrt (<) (obj_ids example_grid)
   \<and> getitem 0 example_grid = Inr example_target
   \<and> length (masks example_target) = length (obj_ids example_grid)
   \<and> 1 < length (obj_ids example_grid)
   \<and> masks example_target ! 1 =
       map (map (\<lambda>p. if p = obj_ids example_grid ! 1 then 1 else 0)) (cells example_grid)"
proof -
  have ok: "getitem 0 example_grid = Inr example_target" by (rule getitem_example_grid)
  have i: "1 < length (obj_ids example_grid)" by (simp add: obj_ids_example_grid)
  from instances_ascending [of example_grid 0] ok i show ?thesis by blast
qed


text \<open>
  Claim C8 says that every pixel with a non-zero value belongs to exactly one mask. On the
  2x2 grid \<open>[[2, 3], [3, 2]]\<close>, which has no background pixel, the only mask is the one of
  label 3: the pixels holding 2 belong to no mask. (Each mask that is produced is true
  exactly where the grid holds its label: lemma \<open>mask_true_iff\<close>.)
\<close>

theorem pixel_in_no_mask:
  "getitem idx \<lparr>nrows = 2, ncols = 2, cells = [[2, 3], [3, 2]]\<rparr> =
     Inr \<lparr>boxes = [(0, 0, 1, 1)], labels = [1], masks = [[[0, 1], [1, 0]]],
          image_id = [idx], area = [1], iscrowd = [0]\<rparr>"
  by (simp add: getitem_eval)

text \<open>
  Claim C9, amended: on the 3x3 grid \<open>[[0, 0, 1], [0, 1, 1], [2, 2, 0]]\<close> the result has
  two instances: label 1 with mask true at (0,2), (1,1), (1,2), box (1, 0, 2, 1) and area 1;
  label 2 with mask true at (2,0), (2,1), box (0, 2, 1, 2) and area 0, its box having
  \<open>ymax = ymin\<close>.
\<close>

theorem example_grid_result:
  "getitem idx \<lparr>nrows = 3, ncols = 3, cells = [[0, 0, 1], [0, 1, 1], [2, 2, 0]]\<rparr> =
     Inr \<lparr>boxes = [(1, 0, 2, 1), (0, 2, 1, 2)],
          labels = [1, 1],
          masks = [[[0, 0, 1], [0, 1, 1], [0, 0, 0]], [[0, 0, 0], [0, 0, 0], [1, 1, 0]]],
          image_id = [idx],
          area = [1, 0],
          iscrowd = [0, 0]\<rparr>"
  by (simp add: getitem_eval)

text \<open>
  Claim C9 as stated gives area 1 to label 2; the areas are 1 and 0.
\<close>

theorem example_grid_area_counterexample:
  "map_sum id area
     (getitem 0 \<lparr>nrows = 3, ncols = 3, cells = [[0, 0, 1], [0, 1, 1], [2, 2, 0]]\<rparr>) = Inr [1, 0]
   \<and> map_sum id area
     (getitem 0 \<lparr>nrows = 3, ncols = 3, cells = [[0, 0, 1], [0, 1, 1], [2, 2, 0]]\<rparr>) \<noteq> Inr [1, 1]"
  by (simp add: getitem_eval)

text \<open>
  Claim C10: in every result, \<open>boxes\<close>, \<open>labels\<close>, \<open>masks\<close>, \<open>area\<close> and \<open>iscrowd\<close>
  have the same first dimension, the number of enumerated ids, and every mask has the
  height and the width of the input image.
\<close>

theorem shapes_agree:
  assumes wf: "wf_array a" and ok: "getitem idx a = Inr t"
  shows "length (boxes t) = length (obj_ids a)
       \<and> length (labels t) = length (obj_ids a)
       \<and> length (masks t) = length (obj_ids a)
       \<and> length (area t) = length (obj_ids a)
       \<and> length (iscrowd t) = length (obj_ids a)
       \<and> (\<forall>m\<in>set (masks t). length m = nrows a \<and> (\<forall>row\<in>set m. length row = ncols a))"
proof -
  note len = getitem_Inr_lengths [OF ok]
  from len(6) obtain i where i: "i < length (obj_ids a)" by (cases "obj_ids a") auto
  have m: "masks t = as_tensor_uint8 (eq_broadcast a (obj_ids a))"
    by (rule getitem_Inr_instance(4) [OF ok i])
  have "\<forall>m\<in>set (masks t). length m = nrows a \<and> (\<forall>row\<in>set m. length row = ncols a)"
    using wf unfolding m by (auto simp: as_tensor_uint8_def eq_broadcast_def wf_array_def list_all_iff)
  with len(1-5) show ?thesis by simp
qed

theorem shapes_agree_witness:
  "wf_array example_grid
   \<and> getitem 0 example_grid = Inr example_target
   \<and> length (boxes example_target) = length (obj_ids example_grid)
   \<and> length (labels example_target) = length (obj_ids example_grid)
   \<and> length (masks example_target) = length (obj_ids example_grid)
   \<and> length (area example_target) = length (obj_ids example_grid)
   \<and> length (iscrowd example_target) = length (obj_ids example_grid)
   \<and> length (masks example_target ! 1) = nrows example_grid
   \<and> length (masks example_target ! 1 ! 2) = ncols example_grid"
proof -
  have ok: "getitem 0 example_grid = Inr example_target" by (rule getitem_example_grid)
  have m: "masks example_target ! 1 \<in> set (masks example_target)"
    by (simp add: example_target_def)
  have r: "masks example_target ! 1 ! 2 \<in> set (masks example_target ! 1)"
    by (simp add: example_target_def)
  from shapes_agree [OF wf_example_grid ok] m r wf_example_grid ok show ?thesis by blast
qed


end
